theory Spec2Isabelle
  imports Complex_Main "HOL-Library.Sublist"
begin

section \<open>JavaScript values\<close>

text \<open>
  The transformer receives \<^verbatim>\<open>req.body\<close> typed \<^verbatim>\<open>any\<close>, and the proxy reads the
  \<^verbatim>\<open>error\<close> member of a parsed JSON document through the index signature
  \<^verbatim>\<open>[key: string]: any\<close>. Such values are modelled by the datatype below. A finite
  JavaScript number is \<open>JNum\<close> of the real it denotes, and \<^verbatim>\<open>-0\<close> is \<open>0\<close>. JSON cannot
  carry an infinity or \<^verbatim>\<open>NaN\<close>; an infinity arises below only as a sum that overflows, and
  \<^verbatim>\<open>NaN\<close>, which no expression below produces from finite numbers, is left out. An object
  is the list of its own properties in insertion order.
\<close>

datatype js =
    JUndefined
  | JNull
  | JBool bool
  | JNum real
  | JPosInfinity
  | JNegInfinity
  | JStr string
  | JArr "js list"
  | JObj "(string \<times> js) list"

text \<open>The conversion to boolean done by \<^verbatim>\<open>if (v)\<close>, \<^verbatim>\<open>v || d\<close> and \<^verbatim>\<open>v && w\<close>.\<close>

fun truthy :: "js \<Rightarrow> bool" where
  "truthy JUndefined = False"
| "truthy JNull = False"
| "truthy (JBool b) = b"
| "truthy (JNum x) = (x \<noteq> 0)"
| "truthy JPosInfinity = True"
| "truthy JNegInfinity = True"
| "truthy (JStr s) = (s \<noteq> [])"
| "truthy (JArr _) = True"
| "truthy (JObj _) = True"

text \<open>
  Reading a property of \<^verbatim>\<open>undefined\<close> or \<^verbatim>\<open>null\<close> throws a \<^verbatim>\<open>TypeError\<close>; the callers
  below test \<open>nullish\<close> before they read. On every other value \<open>js_get\<close> is the read
  \<^verbatim>\<open>v.k\<close> for the keys this program uses (none of them is a member of a built-in
  prototype): the stored value on an object that has the key, \<^verbatim>\<open>undefined\<close> otherwise.
\<close>

fun nullish :: "js \<Rightarrow> bool" where
  "nullish JUndefined = True"
| "nullish JNull = True"
| "nullish _ = False"

fun js_get :: "js \<Rightarrow> string \<Rightarrow> js" where
  "js_get (JObj fs) k = (case map_of fs k of None \<Rightarrow> JUndefined | Some v \<Rightarrow> v)"
| "js_get _ k = JUndefined"

text \<open>The read \<^verbatim>\<open>a[i]\<close> of an array; out of range it is \<^verbatim>\<open>undefined\<close>.\<close>

fun js_index :: "js \<Rightarrow> nat \<Rightarrow> js" where
  "js_index (JArr xs) i = (if i < length xs then xs ! i else JUndefined)"
| "js_index _ i = JUndefined"

text \<open>
  Whether the conversion to a string done by a template string, \<^verbatim>\<open>`${v}`\<close>, throws a
  \<^verbatim>\<open>TypeError\<close>. A primitive value always has a string. An object of a JSON document is
  converted by its \<^verbatim>\<open>toString\<close>: the inherited one gives \<^verbatim>\<open>[object Object]\<close>, but an own
  member of that name is never callable, and then the inherited \<^verbatim>\<open>valueOf\<close> returns the
  object itself (or an own \<^verbatim>\<open>valueOf\<close> is not callable either), so the conversion throws. An
  array is converted by joining the strings of its elements, \<^verbatim>\<open>undefined\<close> and \<^verbatim>\<open>null\<close>
  counting as empty, so it throws when the conversion of an element does.
\<close>

fun to_string_throws :: "js \<Rightarrow> bool" where
  "to_string_throws (JObj fs) = (map_of fs ''toString'' \<noteq> None)"
| "to_string_throws (JArr xs) = list_ex to_string_throws xs"
| "to_string_throws _ = False"

datatype js_exception = TypeError | SyntaxError


section \<open>The ollama transformer (src/transformers/ollama.ts)\<close>

text \<open>
  \<^verbatim>\<open>interface HttpRequest { body: any; headers: Record<string, string>; method: string;
  url: string; params?: Record<string, string>; query?: Record<string, string> }\<close>.
  The record is extensible, so a request object with further members is covered too.
\<close>

record http_request =
  body :: js
  headers :: "(string \<times> string) list"
  "method" :: string
  url :: string
  params :: "(string \<times> string) list option"
  query :: "(string \<times> string) list option"

text \<open>
  The statement \<^verbatim>\<open>if (openaiRequest.k) { ollamaRequest.k = openaiRequest.k; }\<close>: a truthy
  member is added to the object under construction, after the members it already has.
\<close>

definition copy_if_present :: "js \<Rightarrow> string \<Rightarrow> (string \<times> js) list \<Rightarrow> (string \<times> js) list" where
  "copy_if_present openaiRequest k ollamaRequest =
     (if truthy (js_get openaiRequest k) then ollamaRequest @ [(k, js_get openaiRequest k)]
      else ollamaRequest)"

text \<open>
  \<^verbatim>\<open>transformRequest\<close>. The first read, \<^verbatim>\<open>openaiRequest.model\<close>, throws when the body is
  \<^verbatim>\<open>undefined\<close> or \<^verbatim>\<open>null\<close>; otherwise the function returns \<^verbatim>\<open>{...req, body: ollamaRequest}\<close>.
  The comparison \<^verbatim>\<open>openaiRequest.stream !== false\<close> is strict: it is false for the boolean
  \<^verbatim>\<open>false\<close> alone.
\<close>

definition transformRequest :: "'a http_request_scheme \<Rightarrow> js_exception + 'a http_request_scheme" where
  "transformRequest req =
     (let openaiRequest = body req in
      if nullish openaiRequest then Inl TypeError
      else
        let ollamaRequest =
              [(''model'', js_get openaiRequest ''model''),
               (''messages'', js_get openaiRequest ''messages''),
               (''stream'', JBool (js_get openaiRequest ''stream'' \<noteq> JBool False))];
            ollamaRequest = copy_if_present openaiRequest ''max_tokens'' ollamaRequest;
            ollamaRequest = copy_if_present openaiRequest ''temperature'' ollamaRequest;
            ollamaRequest = copy_if_present openaiRequest ''top_p'' ollamaRequest;
            ollamaRequest = copy_if_present openaiRequest ''tools'' ollamaRequest
        in Inr (req\<lparr>body := JObj ollamaRequest\<rparr>))"

text \<open>
  \<^verbatim>\<open>transformResponse\<close> returns its first argument. \<^verbatim>\<open>HttpResponse\<close> is an interface of
  methods; nothing of it is read, so its type is left open.
\<close>

definition transformResponse :: "'r \<Rightarrow> 'a http_request_scheme \<Rightarrow> 'r" where
  "transformResponse response req = response"


section \<open>The daemon proxy (scripts/ts/ollama-proxy.ts)\<close>

subsection \<open>Requests and responses\<close>

text \<open>
  The proxy's \<^verbatim>\<open>convertOpenAIToOllama\<close> calls \<^verbatim>\<open>replace\<close> on the model, \<^verbatim>\<open>map\<close> on the
  messages and puts \<^verbatim>\<open>role\<close> and \<^verbatim>\<open>content\<close> into a template string. Its argument is the
  chat request of the type declarations: a model string, messages of two strings, and three
  optional numbers (\<open>None\<close> for a member that is absent or \<^verbatim>\<open>null\<close>).
\<close>

record message =
  role :: string
  content :: string

record chat_request =
  model :: string
  messages :: "message list"
  max_tokens :: "real option"
  temperature :: "real option"
  top_p :: "real option"

text \<open>
  What the proxy reads of the daemon's JSON answer. \<^verbatim>\<open>response\<close> and \<^verbatim>\<open>error\<close> come under
  the index signature of \<^verbatim>\<open>interface OllamaResponse\<close>; \<^verbatim>\<open>error\<close> is kept as the value it
  is, \<^verbatim>\<open>undefined\<close> when the document has none. A document that is a number, a string, a
  boolean or an array has none of these members and reads like the empty object.
\<close>

record ollama_response =
  response :: "string option"
  done_reason :: "string option"
  prompt_eval_count :: "real option"
  eval_count :: "real option"
  error :: js

text \<open>
  \<^verbatim>\<open>JSON.parse\<close> is a parameter of the model: it throws a \<^verbatim>\<open>SyntaxError\<close>, or returns
  \<^verbatim>\<open>null\<close>, or returns a value whose members are read.
\<close>

datatype json_parse_result = ParseError | ParsedNull | Parsed ollama_response

text \<open>
  The operator \<^verbatim>\<open>||\<close> with an optional number, or an optional string, on the left: the
  left operand when it is truthy, the right one otherwise.
\<close>

definition num_or :: "real option \<Rightarrow> real \<Rightarrow> real" where
  "num_or v d = (case v of None \<Rightarrow> d | Some x \<Rightarrow> if x \<noteq> 0 then x else d)"

definition str_or :: "string option \<Rightarrow> string \<Rightarrow> string" where
  "str_or v d = (case v of None \<Rightarrow> d | Some s \<Rightarrow> if s \<noteq> [] then s else d)"

text \<open>
  \<^verbatim>\<open>s.replace(/^p/, r)\<close> for a literal \<open>p\<close>: the pattern is anchored at the start and
  has no \<^verbatim>\<open>g\<close> flag, so at most the one occurrence at the start is replaced.
\<close>

definition replace_at_start :: "string \<Rightarrow> string \<Rightarrow> string \<Rightarrow> string" where
  "replace_at_start p r s = (if prefix p s then r @ drop (length p) s else s)"

text \<open>\<^verbatim>\<open>Array.prototype.join\<close> on strings.\<close>

fun join :: "string \<Rightarrow> string list \<Rightarrow> string" where
  "join sep [] = []"
| "join sep [x] = x"
| "join sep (x # y # ys) = x @ sep @ join sep (y # ys)"

text \<open>The decimal digits of a natural number, as a template string prints it.\<close>

fun decimal :: "nat \<Rightarrow> string" where
  "decimal n =
     (if n < 10 then [''0123456789'' ! n]
      else decimal (n div 10) @ [''0123456789'' ! (n mod 10)])"

subsection \<open>The two conversions\<close>

definition convertOpenAIToOllama :: "chat_request \<Rightarrow> js" where
  "convertOpenAIToOllama openaiRequest =
     (let model_name = replace_at_start ''ollama,'' [] (model openaiRequest);
          prompt = join [CHR 0x0A]
                     (map (\<lambda>msg. role msg @ '': '' @ content msg) (messages openaiRequest))
      in JObj
           [(''model'', JStr model_name),
            (''prompt'', JStr prompt),
            (''stream'', JBool False),
            (''options'', JObj
               [(''num_predict'', JNum (num_or (max_tokens openaiRequest) 100)),
                (''temperature'', JNum (num_or (temperature openaiRequest) 0.7)),
                (''top_p'', JNum (num_or (top_p openaiRequest) 0.9))])])"

text \<open>
  \<^verbatim>\<open>convertOllamaToOpenAI\<close> adds two numbers with the operator \<^verbatim>\<open>+\<close> of the runtime, the
  addition of IEEE 754 double precision numbers: the sum is the double nearest to the exact
  sum, or an infinity when that overflows. This addition is the first argument of the model,
  \<open>js_plus x y\<close> being the value of \<^verbatim>\<open>x + y\<close> for two finite numbers. The function reads
  the clock twice; the two readings of \<^verbatim>\<open>Date.now()\<close>, in milliseconds, are the next two
  arguments.
\<close>

definition convertOllamaToOpenAI ::
  "(real \<Rightarrow> real \<Rightarrow> js) \<Rightarrow> nat \<Rightarrow> nat \<Rightarrow> ollama_response \<Rightarrow> chat_request \<Rightarrow> js" where
  "convertOllamaToOpenAI js_plus now_id now_created ollamaResponse originalRequest =
     JObj
       [(''id'', JStr (''chatcmpl-'' @ decimal now_id)),
        (''object'', JStr ''chat.completion''),
        (''created'', JNum (real (now_created div 1000))),
        (''model'', JStr (model originalRequest)),
        (''choices'', JArr
           [JObj
              [(''index'', JNum 0),
               (''message'', JObj
                  [(''role'', JStr ''assistant''),
                   (''content'', JStr (str_or (response ollamaResponse) []))]),
               (''finish_reason'', JStr (str_or (done_reason ollamaResponse) ''stop''))]]),
        (''usage'', JObj
           [(''prompt_tokens'', JNum (num_or (prompt_eval_count ollamaResponse) 0)),
            (''completion_tokens'', JNum (num_or (eval_count ollamaResponse) 0)),
            (''total_tokens'',
               js_plus (num_or (prompt_eval_count ollamaResponse) 0)
                       (num_or (eval_count ollamaResponse) 0))])]"

subsection \<open>Calling the daemon\<close>

text \<open>
  An error object: \<^verbatim>\<open>interface OllamaProxyError extends Error\<close>, and the \<^verbatim>\<open>code\<close> that
  Node puts on a transport error. The message text is not modelled.
\<close>

datatype response_data = RawData string | ParsedBody ollama_response

record js_error =
  name :: string
  code :: "string option"
  statusCode :: "nat option"
  responseData :: "response_data option"

text \<open>
  What one request to the daemon ends in: the response's \<^verbatim>\<open>end\<close> event, with the status
  code and the data received; the request's \<^verbatim>\<open>error\<close> event, with Node's error; or the
  request's \<^verbatim>\<open>timeout\<close> event, which comes when no response has arrived in time. The
  \<^verbatim>\<open>timeout\<close> handler calls \<^verbatim>\<open>req.destroy()\<close>; Node then emits the \<^verbatim>\<open>error\<close> event of
  the destroyed request, with the error \<open>socket_hang_up\<close> below, so a request that times out
  runs the \<^verbatim>\<open>timeout\<close> handler first and the \<^verbatim>\<open>error\<close> handler after it.
\<close>

datatype attempt = OnEnd nat string | OnError js_error | OnTimeout

text \<open>How a promise is settled.\<close>

datatype settlement = Resolve ollama_response | Reject js_error

record ollama_proxy =
  port :: nat
  ollamaHost :: string
  ollamaPort :: nat

definition OllamaProxy :: "nat \<Rightarrow> ollama_proxy" where
  "OllamaProxy listen_port = \<lparr>port = listen_port, ollamaHost = ''localhost'', ollamaPort = 11434\<rparr>"

text \<open>
  The options of \<^verbatim>\<open>http.request\<close>. The headers are left out: \<^verbatim>\<open>Content-Length\<close> is the
  byte length of the serialised request, and the serialisation is not modelled.
\<close>

record request_options =
  hostname :: string
  port :: nat
  path :: string
  "method" :: string
  timeout :: nat

text \<open>
  The daemon and the network, seen from the proxy: what the request sent with these
  options and this payload by the call with this \<^verbatim>\<open>retryCount\<close> ends in.
\<close>

type_synonym upstream = "request_options \<Rightarrow> js \<Rightarrow> nat \<Rightarrow> attempt"

definition maxRetries :: nat where
  "maxRetries = 3"

definition baseDelay :: nat where
  "baseDelay = 1000"

definition shouldRetry :: "js_error \<Rightarrow> bool" where
  "shouldRetry err =
     (if code err = Some ''ECONNREFUSED'' \<or> code err = Some ''ENOTFOUND''
         \<or> code err = Some ''TIMEOUT''
      then True
      else if (case statusCode err of None \<Rightarrow> False | Some c \<Rightarrow> c \<noteq> 0 \<and> c \<ge> 500)
      then True
      else False)"

text \<open>
  The \<^verbatim>\<open>options\<close> built at the start of each call of \<^verbatim>\<open>callOllama\<close>, and the error
  made by the \<^verbatim>\<open>timeout\<close> handler.
\<close>

definition options :: "ollama_proxy \<Rightarrow> request_options" where
  "options this =
     \<lparr>hostname = ollamaHost this, port = ollamaPort this, path = ''/api/generate'',
      method = ''POST'', timeout = 30000\<rparr>"

definition timeout_error :: js_error where
  "timeout_error =
     \<lparr>name = ''Error'', code = Some ''TIMEOUT'', statusCode = None, responseData = None\<rparr>"

text \<open>The error Node emits on a request destroyed before its response: socket hang up.\<close>

definition socket_hang_up :: js_error where
  "socket_hang_up =
     \<lparr>name = ''Error'', code = Some ''ECONNRESET'', statusCode = None, responseData = None\<rparr>"

text \<open>
  \<^verbatim>\<open>callOllama\<close>. The result is the list of the delays, in milliseconds, of the timers
  that the call and its retries set, and how the promise returned to the first caller is
  settled. A promise is settled once: a later \<^verbatim>\<open>resolve\<close> or \<^verbatim>\<open>reject\<close> has no effect.
  \<^item> A promise chained with \<^verbatim>\<open>.then(resolve).catch(reject)\<close> to a retry, and not settled
    before, is settled as the retry's promise is.
  \<^item> An exception thrown in the \<^verbatim>\<open>end\<close> handler is caught there and rejects the promise:
    the \<^verbatim>\<open>SyntaxError\<close> of \<^verbatim>\<open>JSON.parse\<close>, the \<^verbatim>\<open>TypeError\<close> of reading
    \<^verbatim>\<open>response.error\<close> when the document is \<^verbatim>\<open>null\<close>, and the \<^verbatim>\<open>TypeError\<close> of the
    template string of the error message when \<^verbatim>\<open>response.error\<close> has no string.
  \<^item> On a timeout with retries left, the \<^verbatim>\<open>timeout\<close> handler sets the timer of the retry;
    then the \<^verbatim>\<open>error\<close> handler is run with \<open>socket_hang_up\<close>, of which \<^verbatim>\<open>shouldRetry\<close> is
    false (lemma \<open>shouldRetry_socket_hang_up\<close>), and rejects the promise with it, long
    before the timer fires. The retry is made all the same, and its timers are in the list,
    but how it ends no longer affects the promise.
  \<^item> On a timeout with no retry left, the \<^verbatim>\<open>timeout\<close> handler rejects the promise with its
    own error, and the rejection by the \<^verbatim>\<open>error\<close> handler after it has no effect.
\<close>

function callOllama ::
  "ollama_proxy \<Rightarrow> (string \<Rightarrow> json_parse_result) \<Rightarrow> upstream \<Rightarrow> js \<Rightarrow> nat
     \<Rightarrow> nat list \<times> settlement" where
  "callOllama this JSON_parse upstream requestData retryCount =
     (case upstream (options this) requestData retryCount of
        OnEnd status data \<Rightarrow>
          if status = 200 then
            (case JSON_parse data of
               ParseError \<Rightarrow>
                 ([], Reject \<lparr>name = ''SyntaxError'', code = None, statusCode = None,
                              responseData = None\<rparr>)
             | ParsedNull \<Rightarrow>
                 ([], Reject \<lparr>name = ''TypeError'', code = None, statusCode = None,
                              responseData = None\<rparr>)
             | Parsed resp \<Rightarrow>
                 if truthy (error resp) then
                   if to_string_throws (error resp) then
                     ([], Reject \<lparr>name = ''TypeError'', code = None, statusCode = None,
                                  responseData = None\<rparr>)
                   else
                     ([], Reject \<lparr>name = ''Error'', code = None, statusCode = Some 400,
                                  responseData = Some (ParsedBody resp)\<rparr>)
                 else ([], Resolve resp))
          else
            ([], Reject \<lparr>name = ''Error'', code = None, statusCode = Some status,
                         responseData = Some (RawData data)\<rparr>)
      | OnError err \<Rightarrow>
          if retryCount < maxRetries \<and> shouldRetry err then
            (let delay = baseDelay * 2 ^ retryCount;
                 (delays, settled) =
                    callOllama this JSON_parse upstream requestData (retryCount + 1)
             in (delay # delays, settled))
          else ([], Reject err)
      | OnTimeout \<Rightarrow>
          if retryCount < maxRetries then
            (let delay = baseDelay * 2 ^ retryCount;
                 (delays, settled) =
                    callOllama this JSON_parse upstream requestData (retryCount + 1)
             in (delay # delays, Reject socket_hang_up))
          else ([], Reject timeout_error))"
  by pat_completeness auto
termination
  by (relation "measure (\<lambda>(this, JSON_parse, upstream, requestData, retryCount).
                            maxRetries - retryCount)") auto

declare callOllama.simps [simp del]


subsection \<open>Example inputs\<close>

text \<open>
  A chat request of two turns with a temperature of \<open>0\<close> and no other sampling
  parameter; answers of the daemon; \<^verbatim>\<open>JSON.parse\<close> on the documents used below (any
  other text is rejected by this instance); behaviours of the daemon; and the runtime's
  addition on the operands used below.
\<close>

definition two_turns :: chat_request where
  "two_turns =
     \<lparr>model = ''ollama,llama3'',
      messages = [\<lparr>role = ''user'', content = ''Hi''\<rparr>,
                  \<lparr>role = ''assistant'', content = ''Hello''\<rparr>],
      max_tokens = None, temperature = Some 0, top_p = None\<rparr>"

definition answer :: ollama_response where
  "answer =
     \<lparr>response = Some ''Hello'', done_reason = Some ''stop'', prompt_eval_count = Some 12,
      eval_count = None, error = JUndefined\<rparr>"

definition loaded :: ollama_response where
  "loaded =
     \<lparr>response = None, done_reason = Some ''load'', prompt_eval_count = None,
      eval_count = None, error = JUndefined\<rparr>"

definition not_found :: ollama_response where
  "not_found =
     \<lparr>response = None, done_reason = None, prompt_eval_count = None, eval_count = None,
      error = JStr ''model not found''\<rparr>"

definition empty_error :: ollama_response where
  "empty_error =
     \<lparr>response = None, done_reason = None, prompt_eval_count = None, eval_count = None,
      error = JStr []\<rparr>"

definition unprintable_error :: ollama_response where
  "unprintable_error =
     \<lparr>response = None, done_reason = None, prompt_eval_count = None, eval_count = None,
      error = JObj [(''toString'', JNum 1)]\<rparr>"

definition huge_counts :: ollama_response where
  "huge_counts =
     \<lparr>response = Some ''Hello'', done_reason = Some ''stop'',
      prompt_eval_count = Some 9007199254740992, eval_count = Some 1, error = JUndefined\<rparr>"

definition parse_documents :: "string \<Rightarrow> json_parse_result" where
  \<open>parse_documents data =
     (if data = ''{"response":"Hello","done_reason":"stop","prompt_eval_count":12}''
      then Parsed answer
      else if data = ''{"done_reason":"load"}'' then Parsed loaded
      else if data = ''{"error":"model not found"}'' then Parsed not_found
      else if data = ''{"error":""}'' then Parsed empty_error
      else if data = ''{"error":{"toString":1}}'' then Parsed unprintable_error
      else if data = ''{"response":"Hello","done_reason":"stop","prompt_eval_count":9007199254740992,"eval_count":1}''
      then Parsed huge_counts
      else if data = ''null'' then ParsedNull
      else ParseError)\<close>

definition refused :: js_error where
  "refused =
     \<lparr>name = ''Error'', code = Some ''ECONNREFUSED'', statusCode = None,
      responseData = None\<rparr>"

definition fails_twice :: upstream where
  \<open>fails_twice opts payload k =
     (if k = 0 then OnError refused
      else if k = 1 then OnTimeout
      else OnEnd 200 ''{"response":"Hello","done_reason":"stop","prompt_eval_count":12}'')\<close>

definition refused_twice :: upstream where
  \<open>refused_twice opts payload k =
     (if k < 2 then OnError refused
      else OnEnd 200 ''{"response":"Hello","done_reason":"stop","prompt_eval_count":12}'')\<close>

definition times_out_once :: upstream where
  \<open>times_out_once opts payload k =
     (if k = 0 then OnTimeout
      else OnEnd 200 ''{"response":"Hello","done_reason":"stop","prompt_eval_count":12}'')\<close>

definition unreachable :: upstream where
  "unreachable opts payload k = OnError refused"

definition answers_with :: "nat \<Rightarrow> string \<Rightarrow> upstream" where
  "answers_with status data opts payload k = OnEnd status data"

text \<open>
  Double precision addition on the operands used below. The exact sum of \<open>2^53\<close>, which is
  9007199254740992, and 1 lies halfway between the neighbouring doubles \<open>2^53\<close> and
  \<open>2^53 + 2\<close>, and the tie goes to the even significand: the sum is \<open>2^53\<close>. The other
  sums used below are of small integers and exact; this instance adds every other pair
  exactly.
\<close>

definition plus_on_examples :: "real \<Rightarrow> real \<Rightarrow> js" where
  "plus_on_examples x y =
     (if x = 9007199254740992 \<and> y = 1 then JNum 9007199254740992 else JNum (x + y))"


section \<open>Properties of the transformer\<close>

lemma map_of_copy_if_present_other:
  "k \<noteq> k' \<Longrightarrow> map_of (copy_if_present b k' fs) k = map_of fs k"
  by (auto simp: copy_if_present_def map_add_def split: option.splits)

text \<open>
  C7. The transformer's \<^verbatim>\<open>transformResponse\<close> is the identity: whatever the response and
  the original request, the response comes back unchanged, and so a second application
  gives what the first gave.
\<close>

theorem transformResponse_identity:
  "transformResponse response req = response \<and>
   transformResponse (transformResponse response req) req' = transformResponse response req"
  by (simp add: transformResponse_def)

text \<open>
  C10. \<^verbatim>\<open>transformRequest\<close> throws only on a body that is \<^verbatim>\<open>undefined\<close> or \<^verbatim>\<open>null\<close>;
  on every other request it returns the request with the body replaced and nothing else
  touched: headers, method, url, params and query are those of the input. The new body's
  \<^verbatim>\<open>stream\<close> is \<^verbatim>\<open>true\<close> unless the incoming body's \<^verbatim>\<open>stream\<close> is exactly \<^verbatim>\<open>false\<close>.
\<close>

theorem transformRequest_frame:
  "(nullish (body req) \<longrightarrow> transformRequest req = Inl TypeError) \<and>
   (\<not> nullish (body req) \<longrightarrow>
      (\<exists>req'. transformRequest req = Inr req' \<and>
         req' = req\<lparr>body := body req'\<rparr> \<and>
         headers req' = headers req \<and> http_request.method req' = http_request.method req \<and> url req' = url req \<and>
         params req' = params req \<and> query req' = query req \<and>
         js_get (body req') ''stream'' = JBool (js_get (body req) ''stream'' \<noteq> JBool False)))"
  by (simp add: transformRequest_def Let_def map_of_copy_if_present_other)

theorem transformRequest_frame_witness:
  "\<not> nullish (JObj [(''model'', JStr ''llama3''), (''stream'', JNum 0)]) \<and>
   nullish JNull \<and>
   transformRequest \<lparr>body = JNull, headers = [(''content-type'', ''application/json'')],
       method = ''POST'', url = ''/v1/chat/completions'', params = None, query = None\<rparr>
     = Inl TypeError \<and>
   (\<exists>req'. transformRequest
        \<lparr>body = JObj [(''model'', JStr ''llama3''), (''stream'', JNum 0)],
         headers = [(''content-type'', ''application/json'')],
         method = ''POST'', url = ''/v1/chat/completions'', params = None, query = None\<rparr>
       = Inr req' \<and>
      headers req' = [(''content-type'', ''application/json'')] \<and> http_request.method req' = ''POST'' \<and>
      url req' = ''/v1/chat/completions'' \<and> params req' = None \<and> query req' = None \<and>
      js_get (body req') ''stream'' = JBool True)"
  using transformRequest_frame
    [of "\<lparr>body = JObj [(''model'', JStr ''llama3''), (''stream'', JNum 0)],
          headers = [(''content-type'', ''application/json'')],
          method = ''POST'', url = ''/v1/chat/completions'', params = None, query = None\<rparr>"]
    transformRequest_frame
    [of "\<lparr>body = JNull, headers = [(''content-type'', ''application/json'')],
          method = ''POST'', url = ''/v1/chat/completions'', params = None, query = None\<rparr>"]
  by auto


section \<open>Properties of the daemon proxy\<close>

subsection \<open>Auxiliary facts about \<^verbatim>\<open>callOllama\<close>\<close>

lemma shouldRetry_socket_hang_up:
  "\<not> shouldRetry socket_hang_up"
  by (simp add: shouldRetry_def socket_hang_up_def)

lemma backoff_cons:
  "k < m \<Longrightarrow> n \<le> m - (k + 1) \<Longrightarrow>
   f k # map f [k + 1..<k + 1 + n] = map f [k..<k + (n + 1)] \<and> n + 1 \<le> m - k"
  by (simp del: upt_Suc add: upt_conv_Cons)

text \<open>
  From any \<^verbatim>\<open>retryCount\<close> on, the timers set are those of the schedule
  \<open>baseDelay * 2 ^ i\<close> for consecutive \<open>i\<close>, and there are at most
  \<open>maxRetries - retryCount\<close> of them.
\<close>

lemma callOllama_delays:
  "\<exists>n\<le>maxRetries - k.
     fst (callOllama this P u rd k) = map (\<lambda>i. baseDelay * 2 ^ i) [k..<k + n]"
proof (induction this P u rd k rule: callOllama.induct)
  case (1 this P u rd k)
  let ?f = "\<lambda>i. baseDelay * 2 ^ i"
  let ?next = "callOllama this P u rd (k + 1)"
  have retry: "\<exists>n\<le>maxRetries - k. ?f k # fst ?next = map ?f [k..<k + n]"
    if lt: "k < maxRetries"
      and ih: "\<exists>n\<le>maxRetries - (k + 1). fst ?next = map ?f [k + 1..<k + 1 + n]"
  proof -
    from ih obtain n where n: "n \<le> maxRetries - (k + 1)"
      and ds: "fst ?next = map ?f [k + 1..<k + 1 + n]" by blast
    note bc = backoff_cons [OF lt n, of ?f]
    have "n + 1 \<le> maxRetries - k"
      by (rule conjunct2 [OF bc])
    moreover have "?f k # fst ?next = map ?f [k..<k + (n + 1)]"
      unfolding ds by (rule conjunct1 [OF bc])
    ultimately show ?thesis
      by (intro exI [of _ "n + 1"] conjI)
  qed
  have stop: "\<exists>n\<le>maxRetries - k. [] = map ?f [k..<k + n]"
    by (rule exI [of _ 0]) simp
  show ?case
  proof (cases "u (options this) rd k")
    case (OnEnd status data)
    then have "fst (callOllama this P u rd k) = []"
      by (simp add: callOllama.simps [of this P u rd k] split: json_parse_result.splits)
    with stop show ?thesis by (simp only:)
  next
    case (OnError err)
    show ?thesis
    proof (cases "k < maxRetries \<and> shouldRetry err")
      case True
      with OnError have "fst (callOllama this P u rd k) = ?f k # fst ?next"
        by (simp add: callOllama.simps [of this P u rd k] split_beta Let_def)
      moreover from True have "k < maxRetries" ..
      ultimately show ?thesis
        using retry [OF _ 1(1) [OF OnError True refl]] by (simp only:)
    next
      case False
      with OnError have "fst (callOllama this P u rd k) = []"
        by (auto simp: callOllama.simps [of this P u rd k])
      with stop show ?thesis by (simp only:)
    qed
  next
    case OnTimeout
    show ?thesis
    proof (cases "k < maxRetries")
      case True
      with OnTimeout have "fst (callOllama this P u rd k) = ?f k # fst ?next"
        by (simp add: callOllama.simps [of this P u rd k] split_beta Let_def)
      with retry [OF True 1(2) [OF OnTimeout True refl]] show ?thesis by (simp only:)
    next
      case False
      with OnTimeout have "fst (callOllama this P u rd k) = []"
        by (simp add: callOllama.simps [of this P u rd k])
      with stop show ?thesis by (simp only:)
    qed
  qed
qed

lemma callOllama_delays_prefix:
  "prefix (fst (callOllama this P u rd 0)) [1000, 2000, 4000]"
proof -
  from callOllama_delays [of 0 this P u rd] obtain n where n: "n \<le> 3"
    and ds: "fst (callOllama this P u rd 0) = map (\<lambda>i. 1000 * 2 ^ i) [0..<n]"
    by (auto simp: maxRetries_def baseDelay_def)
  from n have "n = 0 \<or> n = Suc 0 \<or> n = Suc (Suc 0) \<or> n = Suc (Suc (Suc 0))" by arith
  then show ?thesis using ds by auto
qed

text \<open>
  A request that is refused, or whose host is not found, is retried while fewer than 3
  retries have been made, after \<open>1000 * 2 ^ retryCount\<close> milliseconds, and the promise is
  settled as the retry is.
\<close>

lemma callOllama_error_retried:
  "retryCount < 3 \<Longrightarrow> u (options this) rd retryCount = OnError err \<Longrightarrow>
   code err = Some ''ECONNREFUSED'' \<or> code err = Some ''ENOTFOUND'' \<Longrightarrow>
   callOllama this P u rd retryCount =
     (1000 * 2 ^ retryCount # fst (callOllama this P u rd (retryCount + 1)),
      snd (callOllama this P u rd (retryCount + 1)))"
  by (auto simp: callOllama.simps [of this P u rd retryCount] maxRetries_def baseDelay_def
        shouldRetry_def split_beta Let_def)

text \<open>
  A request that times out while retries are left sets the timer of the retry and rejects
  the promise with \<open>socket_hang_up\<close>, however the retry ends.
\<close>

lemma callOllama_timeout_rejects:
  "retryCount < 3 \<Longrightarrow> u (options this) rd retryCount = OnTimeout \<Longrightarrow>
   callOllama this P u rd retryCount =
     (1000 * 2 ^ retryCount # fst (callOllama this P u rd (retryCount + 1)),
      Reject socket_hang_up)"
  by (simp add: callOllama.simps [of this P u rd retryCount] maxRetries_def baseDelay_def
        split_beta Let_def)

text \<open>
  \<^verbatim>\<open>callOllama\<close> asks the daemon with the options and the payload of its own call, on
  every retry: nothing else of the upstream is consulted.
\<close>

lemma callOllama_same_request:
  "callOllama this P u rd k = callOllama this P (\<lambda>opts d. u (options this) rd) rd k"
proof (induction this P u rd k rule: callOllama.induct)
  case (1 this P u rd k)
  show ?case
  proof (cases "u (options this) rd k")
    case (OnEnd status data)
    then show ?thesis
      by (simp add: callOllama.simps [of this P u rd k]
            callOllama.simps [of this P "\<lambda>opts d. u (options this) rd" rd k])
  next
    case (OnError err)
    with 1(1) [OF OnError _ refl] show ?thesis
      by (simp add: callOllama.simps [of this P u rd k]
            callOllama.simps [of this P "\<lambda>opts d. u (options this) rd" rd k])
  next
    case OnTimeout
    with 1(2) [OF OnTimeout _ refl] show ?thesis
      by (simp add: callOllama.simps [of this P u rd k]
            callOllama.simps [of this P "\<lambda>opts d. u (options this) rd" rd k])
  qed
qed

subsection \<open>Retry policy\<close>

text \<open>
  C1. For a request that is refused the code does what the claim says: a daemon that
  refuses two requests and answers the third completes the call after the delays 1000 and
  2000, and a daemon that refuses every request makes the call fail after the delays 1000,
  2000, 4000. For a request that times out it does not: when the first request times out
  and the daemon would answer the second, which by itself resolves, the call is rejected
  with \<open>socket_hang_up\<close>; and when the first request is refused, the second times out and
  the daemon answers the third, the call is rejected as well.
\<close>

theorem callOllama_timeout_rejects_call:
  "callOllama (OllamaProxy 11435) parse_documents refused_twice
      (convertOpenAIToOllama two_turns) 0 = ([1000, 2000], Resolve answer) \<and>
   callOllama (OllamaProxy 11435) parse_documents unreachable
      (convertOpenAIToOllama two_turns) 0 = ([1000, 2000, 4000], Reject refused) \<and>
   callOllama (OllamaProxy 11435) parse_documents times_out_once
      (convertOpenAIToOllama two_turns) 0 = ([1000], Reject socket_hang_up) \<and>
   callOllama (OllamaProxy 11435) parse_documents times_out_once
      (convertOpenAIToOllama two_turns) 1 = ([], Resolve answer) \<and>
   callOllama (OllamaProxy 11435) parse_documents fails_twice
      (convertOpenAIToOllama two_turns) 0 = ([1000, 2000], Reject socket_hang_up)"
  by (simp add: callOllama.simps refused_twice_def unreachable_def times_out_once_def
        fails_twice_def parse_documents_def maxRetries_def baseDelay_def shouldRetry_def
        refused_def answer_def)

text \<open>
  C2, as amended. When a request ends in a response of status 200 whose document has an
  \<^verbatim>\<open>error\<close> member with a truthy value that has a string, \<^verbatim>\<open>callOllama\<close> sets no timer
  and rejects with status code 400, whatever the \<^verbatim>\<open>retryCount\<close>; \<^verbatim>\<open>shouldRetry\<close> is false
  of that error.
\<close>

theorem callOllama_model_error:
  "upstream (options this) rd retryCount = OnEnd 200 data \<and> P data = Parsed resp \<and>
   truthy (error resp) \<and> \<not> to_string_throws (error resp) \<longrightarrow>
     callOllama this P upstream rd retryCount =
       ([], Reject \<lparr>name = ''Error'', code = None, statusCode = Some 400,
                    responseData = Some (ParsedBody resp)\<rparr>) \<and>
     \<not> shouldRetry \<lparr>name = ''Error'', code = None, statusCode = Some 400,
                     responseData = Some (ParsedBody resp)\<rparr>"
  by (simp add: callOllama.simps [of this P upstream rd retryCount] shouldRetry_def)

theorem callOllama_model_error_witness:
  \<open>answers_with 200 ''{"error":"model not found"}'' (options (OllamaProxy 11435))
      (convertOpenAIToOllama two_turns) 0 = OnEnd 200 ''{"error":"model not found"}'' \<and>
   parse_documents ''{"error":"model not found"}'' = Parsed not_found \<and>
   truthy (error not_found) \<and> \<not> to_string_throws (error not_found) \<and>
   callOllama (OllamaProxy 11435) parse_documents
      (answers_with 200 ''{"error":"model not found"}'') (convertOpenAIToOllama two_turns) 0
     = ([], Reject \<lparr>name = ''Error'', code = None, statusCode = Some 400,
                    responseData = Some (ParsedBody not_found)\<rparr>)\<close>
proof -
  have a: \<open>answers_with 200 ''{"error":"model not found"}'' (options (OllamaProxy 11435))
      (convertOpenAIToOllama two_turns) 0 = OnEnd 200 ''{"error":"model not found"}''\<close>
    by (simp add: answers_with_def)
  have b: \<open>parse_documents ''{"error":"model not found"}'' = Parsed not_found\<close>
    by (simp add: parse_documents_def)
  have c: "truthy (error not_found)" "\<not> to_string_throws (error not_found)"
    by (simp_all add: not_found_def)
  from callOllama_model_error
         [of \<open>answers_with 200 ''{"error":"model not found"}''\<close>
             "OllamaProxy 11435" "convertOpenAIToOllama two_turns" 0 _ parse_documents not_found]
       a b c
  show ?thesis by simp
qed

text \<open>
  The claim as stated fails: a response of status 200 whose document is
  \<^verbatim>\<open>{"error":""}\<close> has an \<^verbatim>\<open>error\<close> member, and the call is resolved with it.
\<close>

theorem callOllama_empty_error_resolves:
  \<open>callOllama (OllamaProxy 11435) parse_documents (answers_with 200 ''{"error":""}'')
      (convertOpenAIToOllama two_turns) 0
     = ([], Resolve empty_error) \<and> error empty_error = JStr []\<close>
  by (simp add: callOllama.simps answers_with_def parse_documents_def empty_error_def)

text \<open>
  A truthy \<^verbatim>\<open>error\<close> that has no string: the template string of the message throws, and
  the call is rejected with the \<^verbatim>\<open>TypeError\<close>, which has no status code.
\<close>

lemma callOllama_unprintable_error:
  \<open>callOllama (OllamaProxy 11435) parse_documents
      (answers_with 200 ''{"error":{"toString":1}}'') (convertOpenAIToOllama two_turns) 0
     = ([], Reject \<lparr>name = ''TypeError'', code = None, statusCode = None,
                    responseData = None\<rparr>)\<close>
  by (simp add: callOllama.simps answers_with_def parse_documents_def unprintable_error_def)

text \<open>
  C3. A response of status 500 rejects the call at once: no timer is set, although
  \<^verbatim>\<open>shouldRetry\<close> is true of the error the call is rejected with.
\<close>

theorem callOllama_status_500_not_retried:
  "callOllama this P (answers_with 500 data) rd 0 =
     ([], Reject \<lparr>name = ''Error'', code = None, statusCode = Some 500,
                  responseData = Some (RawData data)\<rparr>) \<and>
   shouldRetry \<lparr>name = ''Error'', code = None, statusCode = Some 500,
                responseData = Some (RawData data)\<rparr>"
  by (simp add: callOllama.simps [of this P "answers_with 500 data" rd 0] answers_with_def
        shouldRetry_def)

subsection \<open>Request translation\<close>

lemma replace_at_start_strips:
  "replace_at_start p [] (p @ rest) = rest"
  by (simp add: replace_at_start_def)

lemma replace_at_start_keeps:
  "\<not> prefix p s \<Longrightarrow> replace_at_start p r s = s"
  by (simp add: replace_at_start_def)

lemma convertOpenAIToOllama_model:
  "js_get (convertOpenAIToOllama req) ''model'' =
     JStr (replace_at_start ''ollama,'' [] (model req))"
  by (simp add: convertOpenAIToOllama_def Let_def)

lemma convertOpenAIToOllama_options:
  "js_get (convertOpenAIToOllama req) ''options'' =
     JObj [(''num_predict'', JNum (num_or (max_tokens req) 100)),
           (''temperature'', JNum (num_or (temperature req) 0.7)),
           (''top_p'', JNum (num_or (top_p req) 0.9))]"
  by (simp add: convertOpenAIToOllama_def Let_def)

text \<open>
  C4, as amended. The proxy flattens the messages: the payload has a \<^verbatim>\<open>prompt\<close>, the
  lines \<^verbatim>\<open>role: content\<close> of the messages in order, joined by newlines, and no
  \<^verbatim>\<open>messages\<close> member; \<^verbatim>\<open>callOllama\<close> sends every request for it to the path
  \<^verbatim>\<open>/api/generate\<close>.
\<close>

theorem convertOpenAIToOllama_flattens_messages:
  "js_get (convertOpenAIToOllama req) ''prompt'' =
     JStr (join [CHR 0x0A] (map (\<lambda>msg. role msg @ '': '' @ content msg) (messages req))) \<and>
   js_get (convertOpenAIToOllama req) ''messages'' = JUndefined \<and>
   path (options this) = ''/api/generate'' \<and>
   callOllama this P upstream (convertOpenAIToOllama req) retryCount =
     callOllama this P (\<lambda>opts payload. upstream (options this) (convertOpenAIToOllama req))
       (convertOpenAIToOllama req) retryCount"
  using callOllama_same_request [of this P upstream "convertOpenAIToOllama req" retryCount]
  by (simp add: convertOpenAIToOllama_def Let_def options_def)

text \<open>
  The claim as stated fails: for the request of two turns the payload has no
  \<^verbatim>\<open>messages\<close>, its \<^verbatim>\<open>prompt\<close> is the one string of both turns, and the path of the
  call is not that of the chat endpoint.
\<close>

theorem convertOpenAIToOllama_two_turns_one_prompt:
  "js_get (convertOpenAIToOllama two_turns) ''messages'' = JUndefined \<and>
   js_get (convertOpenAIToOllama two_turns) ''prompt'' =
     JStr (''user: Hi'' @ [CHR 0x0A] @ ''assistant: Hello'') \<and>
   path (options (OllamaProxy 11435)) \<noteq> ''/api/chat''"
  by (simp add: convertOpenAIToOllama_def Let_def two_turns_def options_def)

text \<open>
  C5, as amended. A temperature, \<^verbatim>\<open>top_p\<close> or \<^verbatim>\<open>max_tokens\<close> of the request that is
  not \<open>0\<close> is passed on unchanged as \<^verbatim>\<open>options.temperature\<close>, \<^verbatim>\<open>options.top_p\<close>,
  \<^verbatim>\<open>options.num_predict\<close>; one that the request does not have is set to \<open>0.7\<close>,
  \<open>0.9\<close>, \<open>100\<close>.
\<close>

theorem convertOpenAIToOllama_sampling:
  "(temperature req = Some t \<and> t \<noteq> 0 \<longrightarrow>
      js_get (js_get (convertOpenAIToOllama req) ''options'') ''temperature'' = JNum t) \<and>
   (top_p req = Some p \<and> p \<noteq> 0 \<longrightarrow>
      js_get (js_get (convertOpenAIToOllama req) ''options'') ''top_p'' = JNum p) \<and>
   (max_tokens req = Some n \<and> n \<noteq> 0 \<longrightarrow>
      js_get (js_get (convertOpenAIToOllama req) ''options'') ''num_predict'' = JNum n) \<and>
   (temperature req = None \<longrightarrow>
      js_get (js_get (convertOpenAIToOllama req) ''options'') ''temperature'' = JNum 0.7) \<and>
   (top_p req = None \<longrightarrow>
      js_get (js_get (convertOpenAIToOllama req) ''options'') ''top_p'' = JNum 0.9) \<and>
   (max_tokens req = None \<longrightarrow>
      js_get (js_get (convertOpenAIToOllama req) ''options'') ''num_predict'' = JNum 100)"
  by (simp add: convertOpenAIToOllama_options num_or_def)

theorem convertOpenAIToOllama_sampling_witness:
  "temperature (two_turns\<lparr>temperature := Some 0.2, max_tokens := Some 64\<rparr>) = Some 0.2 \<and>
   (0.2 :: real) \<noteq> 0 \<and>
   max_tokens (two_turns\<lparr>temperature := Some 0.2, max_tokens := Some 64\<rparr>) = Some 64 \<and>
   (64 :: real) \<noteq> 0 \<and>
   top_p (two_turns\<lparr>temperature := Some 0.2, max_tokens := Some 64\<rparr>) = None \<and>
   js_get (convertOpenAIToOllama (two_turns\<lparr>temperature := Some 0.2, max_tokens := Some 64\<rparr>))
       ''options''
     = JObj [(''num_predict'', JNum 64), (''temperature'', JNum 0.2), (''top_p'', JNum 0.9)]"
proof -
  let ?req = "two_turns\<lparr>temperature := Some 0.2, max_tokens := Some 64\<rparr>"
  have a: "temperature ?req = Some 0.2" "max_tokens ?req = Some 64" "top_p ?req = None"
    by (simp_all add: two_turns_def)
  from convertOpenAIToOllama_sampling [of ?req "0.2" _ 64] a
  have "js_get (js_get (convertOpenAIToOllama ?req) ''options'') ''temperature'' = JNum 0.2"
    and "js_get (js_get (convertOpenAIToOllama ?req) ''options'') ''num_predict'' = JNum 64"
    and "js_get (js_get (convertOpenAIToOllama ?req) ''options'') ''top_p'' = JNum 0.9"
    by simp_all
  with a show ?thesis
    by (simp add: convertOpenAIToOllama_options)
qed

text \<open>
  The claim as stated fails: for the request of two turns, whose temperature is \<open>0\<close>
  and which has neither \<^verbatim>\<open>top_p\<close> nor \<^verbatim>\<open>max_tokens\<close>, the payload's temperature is
  \<open>0.7\<close>, and a \<^verbatim>\<open>top_p\<close> and a \<^verbatim>\<open>num_predict\<close> are sent.
\<close>

theorem convertOpenAIToOllama_zero_temperature_replaced:
  "temperature two_turns = Some 0 \<and> top_p two_turns = None \<and> max_tokens two_turns = None \<and>
   js_get (js_get (convertOpenAIToOllama two_turns) ''options'') ''temperature'' = JNum 0.7 \<and>
   js_get (js_get (convertOpenAIToOllama two_turns) ''options'') ''temperature'' \<noteq> JNum 0 \<and>
   js_get (js_get (convertOpenAIToOllama two_turns) ''options'') ''top_p'' = JNum 0.9 \<and>
   js_get (js_get (convertOpenAIToOllama two_turns) ''options'') ''num_predict'' = JNum 100"
  by (simp add: convertOpenAIToOllama_options num_or_def two_turns_def)

text \<open>
  C9. A model string that begins with \<^verbatim>\<open>ollama,\<close> is forwarded without these seven
  characters, and only these: what follows them is kept as it is, also when it begins with
  \<^verbatim>\<open>ollama,\<close> again. A model string that does not begin with \<^verbatim>\<open>ollama,\<close> is forwarded
  unchanged, wherever else \<^verbatim>\<open>ollama,\<close> occurs in it.
\<close>

theorem convertOpenAIToOllama_strips_one_prefix:
  "(model req = ''ollama,'' @ rest \<longrightarrow>
      js_get (convertOpenAIToOllama req) ''model'' = JStr rest) \<and>
   (\<not> prefix ''ollama,'' (model req) \<longrightarrow>
      js_get (convertOpenAIToOllama req) ''model'' = JStr (model req))"
  using replace_at_start_strips [of "''ollama,''" rest]
    replace_at_start_keeps [of "''ollama,''" "model req" "[]"]
  by (simp add: convertOpenAIToOllama_model)

theorem convertOpenAIToOllama_strips_one_prefix_witness:
  "model (two_turns\<lparr>model := ''ollama,ollama,llama3''\<rparr>) = ''ollama,'' @ ''ollama,llama3'' \<and>
   js_get (convertOpenAIToOllama (two_turns\<lparr>model := ''ollama,ollama,llama3''\<rparr>)) ''model''
     = JStr ''ollama,llama3'' \<and>
   \<not> prefix ''ollama,'' (model (two_turns\<lparr>model := ''my-ollama,llama3''\<rparr>)) \<and>
   js_get (convertOpenAIToOllama (two_turns\<lparr>model := ''my-ollama,llama3''\<rparr>)) ''model''
     = JStr ''my-ollama,llama3''"
proof -
  have a: "model (two_turns\<lparr>model := ''ollama,ollama,llama3''\<rparr>) = ''ollama,'' @ ''ollama,llama3''"
    by simp
  have b: "\<not> prefix ''ollama,'' (model (two_turns\<lparr>model := ''my-ollama,llama3''\<rparr>))"
    by simp
  from convertOpenAIToOllama_strips_one_prefix
         [of "two_turns\<lparr>model := ''ollama,ollama,llama3''\<rparr>" "''ollama,llama3''"] a
       convertOpenAIToOllama_strips_one_prefix
         [of "two_turns\<lparr>model := ''my-ollama,llama3''\<rparr>"] b
  show ?thesis by simp
qed

subsection \<open>Response translation\<close>

lemma convertOllamaToOpenAI_finish_reason:
  "js_get (js_index (js_get (convertOllamaToOpenAI js_plus t t' r req) ''choices'') 0)
     ''finish_reason''
     = JStr (str_or (done_reason r) ''stop'')"
  by (simp add: convertOllamaToOpenAI_def)

lemma convertOllamaToOpenAI_usage:
  "js_get (convertOllamaToOpenAI js_plus t t' r req) ''usage'' =
     JObj [(''prompt_tokens'', JNum (num_or (prompt_eval_count r) 0)),
           (''completion_tokens'', JNum (num_or (eval_count r) 0)),
           (''total_tokens'',
            js_plus (num_or (prompt_eval_count r) 0) (num_or (eval_count r) 0))]"
  by (simp add: convertOllamaToOpenAI_def)

text \<open>
  C6, as amended. \<^verbatim>\<open>choices[0].finish_reason\<close> is the daemon's \<^verbatim>\<open>done_reason\<close> as it is
  whenever that is a non-empty string, so \<^verbatim>\<open>stop\<close> gives \<^verbatim>\<open>stop\<close> and \<^verbatim>\<open>length\<close> gives
  \<^verbatim>\<open>length\<close>, and it is \<^verbatim>\<open>stop\<close> when the daemon reports no reason.
\<close>

theorem convertOllamaToOpenAI_finish_reason_passed:
  "(done_reason r = Some reason \<and> reason \<noteq> [] \<longrightarrow>
      js_get (js_index (js_get (convertOllamaToOpenAI js_plus t t' r req) ''choices'') 0)
        ''finish_reason'' = JStr reason) \<and>
   (done_reason r = None \<or> done_reason r = Some [] \<longrightarrow>
      js_get (js_index (js_get (convertOllamaToOpenAI js_plus t t' r req) ''choices'') 0)
        ''finish_reason'' = JStr ''stop'')"
  by (auto simp: convertOllamaToOpenAI_finish_reason str_or_def)

theorem convertOllamaToOpenAI_finish_reason_passed_witness:
  "done_reason (answer\<lparr>done_reason := Some ''length''\<rparr>) = Some ''length'' \<and> ''length'' \<noteq> [] \<and>
   js_get (js_index (js_get
       (convertOllamaToOpenAI plus_on_examples 1700000000123 1700000000123
          (answer\<lparr>done_reason := Some ''length''\<rparr>) two_turns) ''choices'') 0)
     ''finish_reason'' = JStr ''length'' \<and>
   done_reason not_found = None \<and>
   js_get (js_index (js_get
       (convertOllamaToOpenAI plus_on_examples 1700000000123 1700000000123 not_found two_turns)
       ''choices'') 0)
     ''finish_reason'' = JStr ''stop''"
proof -
  have a: "done_reason (answer\<lparr>done_reason := Some ''length''\<rparr>) = Some ''length''"
    by simp
  have b: "done_reason not_found = None"
    by (simp add: not_found_def)
  from convertOllamaToOpenAI_finish_reason_passed
         [of "answer\<lparr>done_reason := Some ''length''\<rparr>" "''length''"
             plus_on_examples 1700000000123 1700000000123 two_turns] a
       convertOllamaToOpenAI_finish_reason_passed
         [of not_found _ plus_on_examples 1700000000123 1700000000123 two_turns] b
  show ?thesis by simp
qed

text \<open>
  The claim as stated fails: the daemon's reason \<^verbatim>\<open>load\<close> comes out as the finish
  reason, and it is neither \<^verbatim>\<open>stop\<close> nor \<^verbatim>\<open>length\<close>.
\<close>

theorem convertOllamaToOpenAI_load_passed_through:
  "js_get (js_index (js_get
       (convertOllamaToOpenAI plus_on_examples 1700000000123 1700000000123 loaded two_turns)
       ''choices'') 0)
     ''finish_reason'' = JStr ''load'' \<and>
   JStr ''load'' \<notin> {JStr ''stop'', JStr ''length''}"
  by (simp add: convertOllamaToOpenAI_finish_reason str_or_def loaded_def)

text \<open>
  C8, as amended. In the usage object, \<^verbatim>\<open>total_tokens\<close> is the sum of \<^verbatim>\<open>prompt_tokens\<close>
  and \<^verbatim>\<open>completion_tokens\<close> as the runtime's addition gives it, and so their exact sum
  whenever that addition is exact on them; a count that the daemon's answer lacks is
  \<open>0\<close>.
\<close>

theorem convertOllamaToOpenAI_total_tokens:
  "\<exists>p c.
     js_get (js_get (convertOllamaToOpenAI js_plus t t' r req) ''usage'') ''prompt_tokens''
       = JNum p \<and>
     js_get (js_get (convertOllamaToOpenAI js_plus t t' r req) ''usage'') ''completion_tokens''
       = JNum c \<and>
     js_get (js_get (convertOllamaToOpenAI js_plus t t' r req) ''usage'') ''total_tokens''
       = js_plus p c \<and>
     (js_plus p c = JNum (p + c) \<longrightarrow>
        js_get (js_get (convertOllamaToOpenAI js_plus t t' r req) ''usage'') ''total_tokens''
          = JNum (p + c)) \<and>
     (prompt_eval_count r = None \<longrightarrow> p = 0) \<and>
     (eval_count r = None \<longrightarrow> c = 0)"
  by (simp add: convertOllamaToOpenAI_usage num_or_def)

theorem convertOllamaToOpenAI_total_tokens_witness:
  "plus_on_examples 12 0 = JNum (12 + 0) \<and>
   prompt_eval_count not_found = None \<and> eval_count answer = None \<and>
   js_get (js_get (convertOllamaToOpenAI plus_on_examples 1700000000123 1700000000123
       answer two_turns) ''usage'') ''completion_tokens'' = JNum 0 \<and>
   js_get (js_get (convertOllamaToOpenAI plus_on_examples 1700000000123 1700000000123
       answer two_turns) ''usage'') ''total_tokens'' = JNum 12 \<and>
   js_get (js_get (convertOllamaToOpenAI plus_on_examples 1700000000123 1700000000123
       not_found two_turns) ''usage'') ''prompt_tokens'' = JNum 0"
proof -
  have a: "prompt_eval_count not_found = None" "eval_count not_found = None"
    by (simp_all add: not_found_def)
  have b: "eval_count answer = None"
    by (simp add: answer_def)
  have c: "js_get (js_get (convertOllamaToOpenAI plus_on_examples 1700000000123 1700000000123
             answer two_turns) ''usage'') ''prompt_tokens'' = JNum 12"
    by (simp add: convertOllamaToOpenAI_usage num_or_def answer_def)
  have d: "plus_on_examples 12 0 = JNum (12 + 0)"
    by (simp add: plus_on_examples_def)
  from convertOllamaToOpenAI_total_tokens
         [of plus_on_examples 1700000000123 1700000000123 answer two_turns] b c d
       convertOllamaToOpenAI_total_tokens
         [of plus_on_examples 1700000000123 1700000000123 not_found two_turns] a
  show ?thesis by auto
qed

text \<open>
  The claim as stated fails: for the counts \<open>2^53\<close> and 1 the total is \<open>2^53\<close>, which is
  not their sum.
\<close>

theorem convertOllamaToOpenAI_total_rounded:
  "js_get (js_get (convertOllamaToOpenAI plus_on_examples 1700000000123 1700000000123
       huge_counts two_turns) ''usage'') ''prompt_tokens'' = JNum 9007199254740992 \<and>
   js_get (js_get (convertOllamaToOpenAI plus_on_examples 1700000000123 1700000000123
       huge_counts two_turns) ''usage'') ''completion_tokens'' = JNum 1 \<and>
   js_get (js_get (convertOllamaToOpenAI plus_on_examples 1700000000123 1700000000123
       huge_counts two_turns) ''usage'') ''total_tokens'' = JNum 9007199254740992 \<and>
   js_get (js_get (convertOllamaToOpenAI plus_on_examples 1700000000123 1700000000123
       huge_counts two_turns) ''usage'') ''total_tokens'' \<noteq> JNum (9007199254740992 + 1)"
  by (simp add: convertOllamaToOpenAI_usage num_or_def huge_counts_def plus_on_examples_def)

end
